theory Spec2Isabelle
  imports Complex_Main
begin

section \<open>Numbers and errors of the analyzer\<close>

text \<open>
  The analyzer of \<^verbatim>\<open>dynamicStatisticalAnalyzer.py\<close> computes on Python floats and
  on numpy \<^verbatim>\<open>float64\<close> values. A finite value is modelled by the real number it
  stands for (rounding and overflow are not modelled, and zero is unsigned); the
  special values that numpy arithmetic produces instead of raising are kept:
  \<open>NaN\<close>, \<open>PInf\<close> and \<open>NInf\<close>. Python's own division raises
  \<^verbatim>\<open>ZeroDivisionError\<close>; \<^verbatim>\<open>scipy.stats.chi2_contingency\<close> raises
  \<^verbatim>\<open>ValueError\<close>.
\<close>

datatype npfloat = Fin real | PInf | NInf | NaN

datatype py_error = ZeroDivisionError | ValueError

fun fneg :: "npfloat \<Rightarrow> npfloat" where
  "fneg (Fin x) = Fin (- x)"
| "fneg PInf = NInf"
| "fneg NInf = PInf"
| "fneg NaN = NaN"

fun fabs :: "npfloat \<Rightarrow> npfloat" where
  "fabs (Fin x) = Fin \<bar>x\<bar>"
| "fabs PInf = PInf"
| "fabs NInf = PInf"
| "fabs NaN = NaN"

fun fadd :: "npfloat \<Rightarrow> npfloat \<Rightarrow> npfloat" where
  "fadd NaN _ = NaN"
| "fadd _ NaN = NaN"
| "fadd (Fin x) (Fin y) = Fin (x + y)"
| "fadd PInf NInf = NaN"
| "fadd NInf PInf = NaN"
| "fadd PInf _ = PInf"
| "fadd NInf _ = NInf"
| "fadd (Fin x) PInf = PInf"
| "fadd (Fin x) NInf = NInf"

definition fsub :: "npfloat \<Rightarrow> npfloat \<Rightarrow> npfloat" where
  "fsub a b = fadd a (fneg b)"

text \<open>The sign of a value that is not \<open>NaN\<close>: \<open>-1\<close>, \<open>0\<close> or \<open>1\<close>.\<close>

fun fsgn :: "npfloat \<Rightarrow> real" where
  "fsgn (Fin x) = sgn x"
| "fsgn PInf = 1"
| "fsgn NInf = - 1"
| "fsgn NaN = 0"

definition inf_of_sign :: "real \<Rightarrow> npfloat" where
  "inf_of_sign s = (if s = 0 then NaN else if 0 < s then PInf else NInf)"

fun fmul :: "npfloat \<Rightarrow> npfloat \<Rightarrow> npfloat" where
  "fmul NaN _ = NaN"
| "fmul _ NaN = NaN"
| "fmul (Fin x) (Fin y) = Fin (x * y)"
| "fmul a b = inf_of_sign (fsgn a * fsgn b)"

fun fdiv :: "npfloat \<Rightarrow> npfloat \<Rightarrow> npfloat" where
  "fdiv NaN _ = NaN"
| "fdiv _ NaN = NaN"
| "fdiv (Fin x) (Fin y) = (if y = 0 then inf_of_sign x else Fin (x / y))"
| "fdiv (Fin x) _ = Fin 0"
| "fdiv a (Fin y) = (if y < 0 then fneg a else a)"
| "fdiv _ _ = NaN"

fun fsqrt :: "npfloat \<Rightarrow> npfloat" where
  "fsqrt (Fin x) = (if x < 0 then NaN else Fin (sqrt x))"
| "fsqrt PInf = PInf"
| "fsqrt NInf = NaN"
| "fsqrt NaN = NaN"

fun fless :: "npfloat \<Rightarrow> npfloat \<Rightarrow> bool" where
  "fless NaN _ = False"
| "fless _ NaN = False"
| "fless (Fin x) (Fin y) = (x < y)"
| "fless NInf NInf = False"
| "fless NInf _ = True"
| "fless _ NInf = False"
| "fless PInf _ = False"
| "fless (Fin x) PInf = True"


text \<open>\<^verbatim>\<open>x**2\<close> on a numpy value.\<close>

definition fpow2 :: "npfloat \<Rightarrow> npfloat" where
  "fpow2 x = fmul x x"

text \<open>Python's \<^verbatim>\<open>x / n\<close> on a float and an \<^verbatim>\<open>int\<close>.\<close>

definition py_div :: "real \<Rightarrow> real \<Rightarrow> py_error + real" where
  "py_div x y = (if y = 0 then Inl ZeroDivisionError else Inr (x / y))"

section \<open>The data model\<close>

datatype DataType = Continuous | Binary | Categorical

datatype TestType = T_test | Z_test | Chi_squared

record StatisticalInputs =
  group_a :: "real list"
  group_b :: "real list"
  significance_level :: real
  power_level :: real
  confidence_level :: real

record ConfidenceInterval =
  lower :: npfloat
  upper :: npfloat

text \<open>
  The result of a test. The two formatted sentences of \<^verbatim>\<open>interpretation\<close> and the
  fixed hypothesis and assumption texts of \<^verbatim>\<open>test_details\<close> are not part of the
  model; the decision label and the method name are.
\<close>

record StatisticalResult =
  data_type :: DataType
  test_type :: TestType
  test_statistic :: npfloat
  p_value :: npfloat
  confidence_interval :: ConfidenceInterval
  effect_size :: npfloat
  is_significant :: bool
  decision :: string
  method_name :: string

text \<open>
  The distribution functions of \<^verbatim>\<open>scipy.stats\<close> that the analyzer calls:
  \<^verbatim>\<open>t.cdf(x, df)\<close>, \<^verbatim>\<open>t.ppf(q, df)\<close>, \<^verbatim>\<open>norm.cdf(x)\<close>, \<^verbatim>\<open>norm.ppf(q)\<close>, and the
  survival function \<^verbatim>\<open>chi2.sf(x, dof)\<close> behind \<^verbatim>\<open>chi2_contingency\<close>. They are
  parameters of every test.
\<close>

record scipy_stats =
  t_cdf :: "npfloat \<Rightarrow> npfloat \<Rightarrow> npfloat"
  t_ppf :: "npfloat \<Rightarrow> npfloat \<Rightarrow> npfloat"
  norm_cdf :: "npfloat \<Rightarrow> npfloat"
  norm_ppf :: "npfloat \<Rightarrow> npfloat"
  chi2_sf :: "npfloat \<Rightarrow> nat \<Rightarrow> npfloat"

section \<open>Descriptive statistics\<close>

text \<open>\<^verbatim>\<open>np.mean(data)\<close>: the mean of an empty list is \<open>nan\<close>.\<close>

definition np_mean :: "real list \<Rightarrow> npfloat" where
  "np_mean data = (if data = [] then NaN else Fin (sum_list data / real (length data)))"

text \<open>
  \<^verbatim>\<open>np.var(data, ddof=1)\<close>: the squared deviations from the mean, summed and divided
  by \<open>n - 1\<close>; for \<open>n \<le> 1\<close> the division is \<open>0 / 0\<close> and the value is \<open>nan\<close>.
\<close>

definition np_var :: "real list \<Rightarrow> npfloat" where
  "np_var data =
     (if length data \<le> 1 then NaN
      else let m = sum_list data / real (length data)
           in Fin (sum_list (map (\<lambda>x. (x - m)\<^sup>2) data) / (real (length data) - 1)))"

definition mean :: "real list \<Rightarrow> npfloat" where
  "mean data = np_mean data"

definition variance :: "real list \<Rightarrow> npfloat" where
  "variance data = np_var data"

section \<open>Classification of a sample\<close>

text \<open>\<^verbatim>\<open>float(val).is_integer()\<close>\<close>

definition is_integer :: "real \<Rightarrow> bool" where
  "is_integer val = (of_int \<lfloor>val\<rfloor> = val)"

text \<open>
  \<^verbatim>\<open>list(set(data))\<close> is the list of distinct values in some order; both tests on
  it, \<^verbatim>\<open>all\<close> and \<^verbatim>\<open>len\<close>, do not depend on the order.
\<close>

definition detect_data_type :: "real list \<Rightarrow> DataType" where
  "detect_data_type data =
     (let unique_values = remdups data
      in if list_all (\<lambda>val. val = 0 \<or> val = 1) unique_values then Binary
         else if length unique_values \<le> 10 \<and> list_all is_integer unique_values
         then Categorical
         else Continuous)"

section \<open>The three tests\<close>

text \<open>
  The Welch--Satterthwaite degrees of freedom, the expression bound to \<^verbatim>\<open>df\<close> in
  \<^verbatim>\<open>welch_t_test\<close>. The counts \<open>n_a - 1\<close> and \<open>n_b - 1\<close> are Python integers.
\<close>

definition welch_df :: "npfloat \<Rightarrow> nat \<Rightarrow> npfloat \<Rightarrow> nat \<Rightarrow> npfloat" where
  "welch_df var_a n_a var_b n_b =
     fdiv (fpow2 (fadd (fdiv var_a (Fin (real n_a))) (fdiv var_b (Fin (real n_b)))))
          (fadd (fdiv (fpow2 (fdiv var_a (Fin (real n_a)))) (Fin (real n_a - 1)))
                (fdiv (fpow2 (fdiv var_b (Fin (real n_b)))) (Fin (real n_b - 1))))"

text \<open>
  Every operation of \<^verbatim>\<open>welch_t_test\<close> is a numpy operation, so nothing raises: a
  division by zero gives \<open>inf\<close> or \<open>nan\<close>.
\<close>

definition welch_t_test ::
  "scipy_stats \<Rightarrow> real list \<Rightarrow> real list \<Rightarrow> real \<Rightarrow> real \<Rightarrow> py_error + StatisticalResult" where
  "welch_t_test stats grp_a grp_b alpha conf_level =
     (let mean_a = np_mean grp_a;
          mean_b = np_mean grp_b;
          var_a = np_var grp_a;
          var_b = np_var grp_b;
          n_a = length grp_a;
          n_b = length grp_b;
          pooled_se = fsqrt (fadd (fdiv var_a (Fin (real n_a))) (fdiv var_b (Fin (real n_b))));
          t = fdiv (fsub mean_a mean_b) pooled_se;
          df = welch_df var_a n_a var_b n_b;
          p = fmul (Fin 2) (fsub (Fin 1) (t_cdf stats (fabs t) df));
          pooled_sd = fsqrt (fdiv (fadd (fmul (Fin (real n_a - 1)) var_a)
                                        (fmul (Fin (real n_b - 1)) var_b))
                                  (Fin (real n_a + real n_b - 2)));
          cohens_d = fdiv (fsub mean_a mean_b) pooled_sd;
          t_critical = t_ppf stats (Fin (1 - (1 - conf_level) / 2)) df;
          margin_of_error = fmul t_critical pooled_se;
          diff = fsub mean_a mean_b;
          significant = fless p (Fin alpha)
      in Inr \<lparr>data_type = Continuous,
              test_type = T_test,
              test_statistic = t,
              p_value = p,
              confidence_interval =
                \<lparr>lower = fsub diff margin_of_error, upper = fadd diff margin_of_error\<rparr>,
              effect_size = cohens_d,
              is_significant = significant,
              decision = (if significant then ''reject'' else ''fail_to_reject''),
              method_name = ''Welch's Two-Sample t-Test''\<rparr>)"

text \<open>
  In \<^verbatim>\<open>two_proportion_z_test\<close> the proportions are Python divisions of a sum by a
  length, which raise on an empty group; from \<^verbatim>\<open>np.sqrt\<close> on the values are numpy
  values.
\<close>

definition two_proportion_z_test ::
  "scipy_stats \<Rightarrow> real list \<Rightarrow> real list \<Rightarrow> real \<Rightarrow> real \<Rightarrow> py_error + StatisticalResult" where
  "two_proportion_z_test stats grp_a grp_b alpha conf_level =
     (let n_a = real (length grp_a);
          n_b = real (length grp_b);
          x_a = sum_list grp_a;
          x_b = sum_list grp_b
      in case py_div x_a n_a of Inl e \<Rightarrow> Inl e | Inr p_a \<Rightarrow>
         case py_div x_b n_b of Inl e \<Rightarrow> Inl e | Inr p_b \<Rightarrow>
         case py_div (x_a + x_b) (n_a + n_b) of Inl e \<Rightarrow> Inl e | Inr p_pool \<Rightarrow>
         case py_div 1 n_a of Inl e \<Rightarrow> Inl e | Inr inv_a \<Rightarrow>
         case py_div 1 n_b of Inl e \<Rightarrow> Inl e | Inr inv_b \<Rightarrow>
         (let standard_error = fsqrt (Fin (p_pool * (1 - p_pool) * (inv_a + inv_b)));
              z = fdiv (Fin (p_a - p_b)) standard_error;
              p = fmul (Fin 2) (fsub (Fin 1) (norm_cdf stats (fabs z)));
              z_critical = norm_ppf stats (Fin (1 - (1 - conf_level) / 2));
              se_diff = fsqrt (Fin (p_a * (1 - p_a) / n_a + p_b * (1 - p_b) / n_b));
              diff = Fin (p_a - p_b);
              margin_of_error = fmul z_critical se_diff;
              significant = fless p (Fin alpha)
          in Inr \<lparr>data_type = Binary,
                  test_type = Z_test,
                  test_statistic = z,
                  p_value = p,
                  confidence_interval =
                    \<lparr>lower = fsub diff margin_of_error, upper = fadd diff margin_of_error\<rparr>,
                  effect_size = diff,
                  is_significant = significant,
                  decision = (if significant then ''reject'' else ''fail_to_reject''),
                  method_name = ''Two-Proportion Z-Test''\<rparr>))"


text \<open>
  \<^verbatim>\<open>scipy.stats.chi2_contingency(observed)\<close> with its default arguments, on a table
  of two columns (one row per pair). It raises \<^verbatim>\<open>ValueError\<close> on a table without
  cells and on an expected frequency of zero. The expected frequency of a cell is its
  row total times its column total over the grand total. The degrees of freedom of a
  table of \<open>r\<close> rows and two columns are \<open>r - 1\<close>; with none, the statistic is \<open>0.0\<close> and
  the p-value \<open>1.0\<close>. The default \<^verbatim>\<open>correction=True\<close> moves every observed count
  towards its expected frequency by \<open>min(0.5, |expected - observed|)\<close> when there is
  exactly one degree of freedom (Yates' correction for continuity). The statistic is the
  sum over the cells of \<open>(observed - expected)\<^sup>2 / expected\<close>, the p-value is
  \<^verbatim>\<open>chi2.sf(statistic, dof)\<close>.
\<close>

fun fsign :: "npfloat \<Rightarrow> npfloat" where
  "fsign (Fin x) = Fin (sgn x)"
| "fsign PInf = Fin 1"
| "fsign NInf = Fin (- 1)"
| "fsign NaN = NaN"

definition fminimum :: "npfloat \<Rightarrow> npfloat \<Rightarrow> npfloat" where
  "fminimum a b = (if a = NaN \<or> b = NaN then NaN else if fless b a then b else a)"

definition fsum :: "npfloat list \<Rightarrow> npfloat" where
  "fsum xs = foldr fadd xs (Fin 0)"

definition expected_freq :: "(nat \<times> nat) list \<Rightarrow> (npfloat \<times> npfloat) list" where
  "expected_freq observed =
     (let col_a = sum_list (map fst observed);
          col_b = sum_list (map snd observed);
          total = col_a + col_b
      in map (\<lambda>(a, b). (fdiv (Fin (real ((a + b) * col_a))) (Fin (real total)),
                         fdiv (Fin (real ((a + b) * col_b))) (Fin (real total))))
             observed)"

definition yates :: "npfloat \<Rightarrow> npfloat \<Rightarrow> npfloat" where
  "yates obs ex =
     (let diff = fsub ex obs;
          direction = fsign diff;
          magnitude = fminimum (Fin (1 / 2)) (fabs diff)
      in fadd obs (fmul magnitude direction))"

definition pearson_term :: "npfloat \<Rightarrow> npfloat \<Rightarrow> npfloat" where
  "pearson_term obs ex = fdiv (fpow2 (fsub obs ex)) ex"

definition chi2_contingency ::
  "scipy_stats \<Rightarrow> (nat \<times> nat) list
     \<Rightarrow> py_error + (npfloat \<times> npfloat \<times> nat \<times> (npfloat \<times> npfloat) list)" where
  "chi2_contingency stats observed =
     (if observed = [] then Inl ValueError
      else let expected = expected_freq observed
      in if list_ex (\<lambda>(ea, eb). ea = Fin 0 \<or> eb = Fin 0) expected then Inl ValueError
         else let dof = length observed - 1
         in if dof = 0 then Inr (Fin 0, Fin 1, dof, expected)
            else let obs = map (\<lambda>(a, b). (Fin (real a), Fin (real b))) observed;
                     obs' = (if dof = 1
                             then map (\<lambda>((oa, ob), (ea, eb)). (yates oa ea, yates ob eb))
                                      (zip obs expected)
                             else obs);
                     chi2 = fsum (concat (map (\<lambda>((oa, ob), (ea, eb)).
                                                  [pearson_term oa ea, pearson_term ob eb])
                                              (zip obs' expected)))
                 in Inr (chi2, chi2_sf stats chi2 dof, dof, expected))"

text \<open>
  The rows of the table follow \<^verbatim>\<open>sorted(list(set(group_a + group_b)))\<close>. The total
  \<open>total_n\<close> is positive wherever \<^verbatim>\<open>chi2_contingency\<close> has returned.
\<close>

definition contingency_table :: "real list \<Rightarrow> real list \<Rightarrow> (nat \<times> nat) list" where
  "contingency_table grp_a grp_b =
     map (\<lambda>v. (count_list grp_a v, count_list grp_b v)) (sort (remdups (grp_a @ grp_b)))"

definition chi_squared_test ::
  "scipy_stats \<Rightarrow> real list \<Rightarrow> real list \<Rightarrow> real \<Rightarrow> real \<Rightarrow> py_error + StatisticalResult" where
  "chi_squared_test stats grp_a grp_b alpha conf_level =
     (case chi2_contingency stats (contingency_table grp_a grp_b) of
        Inl e \<Rightarrow> Inl e
      | Inr (chi2, p, dof, expected) \<Rightarrow>
          (let total_n = length grp_a + length grp_b;
               effect = fsqrt (fdiv chi2 (Fin (real total_n)));
               significant = fless p (Fin alpha)
           in Inr \<lparr>data_type = Categorical,
                   test_type = Chi_squared,
                   test_statistic = chi2,
                   p_value = p,
                   confidence_interval = \<lparr>lower = Fin 0, upper = fmul effect (Fin 2)\<rparr>,
                   effect_size = effect,
                   is_significant = significant,
                   decision = (if significant then ''reject'' else ''fail_to_reject''),
                   method_name = ''Chi-Squared Test of Independence''\<rparr>))"

section \<open>The entry point\<close>

text \<open>
  The binding \<open>dt\<close> is the variable \<^verbatim>\<open>data_type\<close> of \<^verbatim>\<open>analyze_data\<close>, set by the
  first chain of conditions and read by the second.
\<close>

definition analyze_data :: "scipy_stats \<Rightarrow> StatisticalInputs \<Rightarrow> py_error + StatisticalResult" where
  "analyze_data stats inputs =
     (let data_type_a = detect_data_type (group_a inputs);
          data_type_b = detect_data_type (group_b inputs);
          dt = (if data_type_a = Binary \<or> data_type_b = Binary then Binary
                else if data_type_a = Categorical \<or> data_type_b = Categorical then Categorical
                else Continuous)
      in if dt = Binary
         then two_proportion_z_test stats (group_a inputs) (group_b inputs)
                (significance_level inputs) (confidence_level inputs)
         else if dt = Categorical
         then chi_squared_test stats (group_a inputs) (group_b inputs)
                (significance_level inputs) (confidence_level inputs)
         else welch_t_test stats (group_a inputs) (group_b inputs)
                (significance_level inputs) (confidence_level inputs))"

text \<open>
  A stand-in for the distribution functions, for evaluating the tests on concrete
  samples: every function returns the same value.
\<close>

definition const_stats :: "npfloat \<Rightarrow> scipy_stats" where
  "const_stats c =
     \<lparr>t_cdf = (\<lambda>x df. c), t_ppf = (\<lambda>q df. c), norm_cdf = (\<lambda>x. c), norm_ppf = (\<lambda>q. c),
      chi2_sf = (\<lambda>x dof. c)\<rparr>"


text \<open>Concrete calls, for evaluating the entry point.\<close>

definition scenario_categorical :: StatisticalInputs where
  "scenario_categorical =
     \<lparr>group_a = [1, 2, 3, 1, 2], group_b = [3, 3, 3, 1, 1], significance_level = 1 / 20,
      power_level = 4 / 5, confidence_level = 19 / 20\<rparr>"

definition empty_group_inputs :: StatisticalInputs where
  "empty_group_inputs =
     \<lparr>group_a = [], group_b = [5 / 2, 7 / 2], significance_level = 1 / 20,
      power_level = 4 / 5, confidence_level = 19 / 20\<rparr>"

definition single_observation_inputs :: StatisticalInputs where
  "single_observation_inputs =
     \<lparr>group_a = [5 / 2], group_b = [3 / 2, 5 / 2, 37 / 10], significance_level = 1 / 20,
      power_level = 4 / 5, confidence_level = 19 / 20\<rparr>"

definition out_of_range_inputs :: StatisticalInputs where
  "out_of_range_inputs =
     \<lparr>group_a = [1, 1, 0], group_b = [1, 0, 0], significance_level = 2,
      power_level = 4 / 5, confidence_level = - 1\<rparr>"

section \<open>The quantities of the specification\<close>

text \<open>
  The statistics as the specification writes them, in real arithmetic: the mean and
  the sample variance (denominator \<open>n - 1\<close>) of a sample, and over a table of two
  columns the Pearson statistic, uncorrected and with Yates' correction (every observed
  count moved towards its expected frequency by at most one half).
\<close>

definition sample_mean :: "real list \<Rightarrow> real" where
  "sample_mean xs = sum_list xs / real (length xs)"

definition sample_variance :: "real list \<Rightarrow> real" where
  "sample_variance xs =
     sum_list (map (\<lambda>x. (x - sample_mean xs)\<^sup>2) xs) / (real (length xs) - 1)"

definition pearson_cell :: "real \<Rightarrow> real \<Rightarrow> real" where
  "pearson_cell obs ex = (obs - ex)\<^sup>2 / ex"

definition yates_obs :: "real \<Rightarrow> real \<Rightarrow> real" where
  "yates_obs obs ex =
     (if obs < ex then obs + min (1 / 2) (ex - obs)
      else if ex < obs then obs - min (1 / 2) (obs - ex)
      else obs)"

definition table_statistic :: "(real \<Rightarrow> real \<Rightarrow> real) \<Rightarrow> (nat \<times> nat) list \<Rightarrow> real" where
  "table_statistic adjust observed =
     (let col_a = real (sum_list (map fst observed));
          col_b = real (sum_list (map snd observed));
          total = col_a + col_b
      in sum_list (map (\<lambda>(a, b).
             pearson_cell (adjust (real a) (real (a + b) * col_a / total))
                          (real (a + b) * col_a / total)
           + pearson_cell (adjust (real b) (real (a + b) * col_b / total))
                          (real (a + b) * col_b / total)) observed))"

definition pearson_chi2 :: "(nat \<times> nat) list \<Rightarrow> real" where
  "pearson_chi2 observed = table_statistic (\<lambda>obs ex. obs) observed"

definition yates_chi2 :: "(nat \<times> nat) list \<Rightarrow> real" where
  "yates_chi2 observed = table_statistic yates_obs observed"

text \<open>The expected frequencies of a row, by column.\<close>

definition exp_a :: "(nat \<times> nat) list \<Rightarrow> nat \<times> nat \<Rightarrow> real" where
  "exp_a observed = (\<lambda>(a, b). real (a + b) * real (sum_list (map fst observed))
      / (real (sum_list (map fst observed)) + real (sum_list (map snd observed))))"

definition exp_b :: "(nat \<times> nat) list \<Rightarrow> nat \<times> nat \<Rightarrow> real" where
  "exp_b observed = (\<lambda>(a, b). real (a + b) * real (sum_list (map snd observed))
      / (real (sum_list (map fst observed)) + real (sum_list (map snd observed))))"

text \<open>The statistic that \<^verbatim>\<open>chi2_contingency\<close> returns on a table of positive margins.\<close>

definition table_chi2 :: "(nat \<times> nat) list \<Rightarrow> real" where
  "table_chi2 observed =
     (if length observed = 2 then yates_chi2 observed else pearson_chi2 observed)"


section \<open>Facts about the tests\<close>

subsection \<open>Which calls return\<close>

lemma z_test_empty:
  "grp_a = [] \<or> grp_b = [] \<Longrightarrow>
   two_proportion_z_test stats grp_a grp_b alpha cl = Inl ZeroDivisionError"
  by (auto simp: two_proportion_z_test_def py_div_def Let_def)

lemma len_sum_pos: "grp_a \<noteq> [] \<Longrightarrow> real (length grp_a) + real (length grp_b) \<noteq> 0"
  by (cases grp_a) auto

lemma z_test_returns:
  "grp_a \<noteq> [] \<Longrightarrow> grp_b \<noteq> [] \<Longrightarrow>
   \<exists>r. two_proportion_z_test stats grp_a grp_b alpha cl = Inr r
     \<and> data_type r = Binary \<and> test_type r = Z_test
     \<and> is_significant r = fless (p_value r) (Fin alpha)"
  by (simp add: two_proportion_z_test_def py_div_def Let_def len_sum_pos)

lemma welch_returns:
  "\<exists>r. welch_t_test stats grp_a grp_b alpha cl = Inr r
     \<and> data_type r = Continuous \<and> test_type r = T_test
     \<and> is_significant r = fless (p_value r) (Fin alpha)"
  by (simp add: welch_t_test_def Let_def)

lemma sum_count_union:
  "set xs \<subseteq> set zs \<Longrightarrow> distinct zs \<Longrightarrow> sum_list (map (count_list xs) zs) = length xs"
proof -
  assume a: "set xs \<subseteq> set zs" and d: "distinct zs"
  have "sum_list (map (count_list xs) zs) = sum (count_list xs) (set zs)"
    using d by (rule sum_list_distinct_conv_sum_set)
  also have "\<dots> = length xs"
    using a by (simp add: sum_count_set)
  finally show ?thesis .
qed

lemma table_col_a: "sum_list (map fst (contingency_table a b)) = length a"
  using sum_count_union [of a "sort (remdups (a @ b))"]
  by (simp add: contingency_table_def comp_def)

lemma table_col_b: "sum_list (map snd (contingency_table a b)) = length b"
  using sum_count_union [of b "sort (remdups (a @ b))"]
  by (simp add: contingency_table_def comp_def)

lemma count_list_pos: "v \<in> set xs \<Longrightarrow> 0 < count_list xs v"
  using count_list_0_iff [of xs v] by simp

lemma table_row_pos: "(x, y) \<in> set (contingency_table a b) \<Longrightarrow> 0 < x + y"
  by (auto simp: contingency_table_def count_list_0_iff dest: count_list_pos)

lemma table_nonempty: "a \<noteq> [] \<Longrightarrow> contingency_table a b \<noteq> []"
proof -
  assume "a \<noteq> []"
  then have "set (sort (remdups (a @ b))) \<noteq> {}" by simp
  then have "sort (remdups (a @ b)) \<noteq> []" by (metis set_empty)
  then show ?thesis by (simp add: contingency_table_def)
qed

subsection \<open>The statistic of a contingency table\<close>

lemma pearson_term_Fin:
  "ex \<noteq> 0 \<Longrightarrow> pearson_term (Fin obs) (Fin ex) = Fin (pearson_cell obs ex)"
  by (simp add: pearson_term_def pearson_cell_def fsub_def fpow2_def power2_eq_square)

lemma yates_Fin: "yates (Fin obs) (Fin ex) = Fin (yates_obs obs ex)"
  by (auto simp: yates_def yates_obs_def fsub_def fminimum_def Let_def sgn_if min_def)

lemma zip_map_same: "zip (map g xs) (map h xs) = map (\<lambda>x. (g x, h x)) xs"
  by (induction xs) simp_all

lemma pearson_cell_nonneg: "0 < ex \<Longrightarrow> 0 \<le> pearson_cell obs ex"
  by (simp add: pearson_cell_def)

lemma expected_freq_Fin:
  assumes "0 < sum_list (map fst observed)"
  shows "expected_freq observed = map (\<lambda>x. (Fin (exp_a observed x), Fin (exp_b observed x))) observed"
proof -
  have gen: "\<And>ca cb::nat. 0 < ca \<Longrightarrow>
      map (\<lambda>(a, b). (fdiv (Fin (real ((a + b) * ca))) (Fin (real (ca + cb))),
                        fdiv (Fin (real ((a + b) * cb))) (Fin (real (ca + cb))))) observed
      = map (\<lambda>x. (Fin (real (fst x + snd x) * real ca / (real ca + real cb)),
                     Fin (real (fst x + snd x) * real cb / (real ca + real cb)))) observed"
    by (auto simp: split_def)
  show ?thesis
    unfolding expected_freq_def Let_def exp_a_def exp_b_def split_def
    using gen [OF assms] by (simp add: split_def)
qed

lemma exp_pos:
  assumes "\<forall>(a, b)\<in>set observed. 0 < a + b"
    and "0 < sum_list (map fst observed)" and "0 < sum_list (map snd observed)"
    and "x \<in> set observed"
  shows "0 < exp_a observed x \<and> 0 < exp_b observed x"
proof -
  obtain a b where x: "x = (a, b)" by (cases x)
  from assms(1,4) x have r: "0 < real (a + b)" by auto
  from assms(2) have ca: "0 < real (sum_list (map fst observed))" by simp
  from assms(3) have cb: "0 < real (sum_list (map snd observed))" by simp
  from ca cb have n: "0 < real (sum_list (map fst observed)) + real (sum_list (map snd observed))"
    by simp
  show ?thesis
    unfolding exp_a_def exp_b_def x prod.case
    using r ca cb n by (intro conjI divide_pos_pos mult_pos_pos)
qed

lemma table_statistic_alt:
  "table_statistic adjust observed =
     sum_list (map (\<lambda>x. pearson_cell (adjust (real (fst x)) (exp_a observed x)) (exp_a observed x)
                        + pearson_cell (adjust (real (snd x)) (exp_b observed x)) (exp_b observed x))
                   observed)"
  by (simp add: table_statistic_def Let_def exp_a_def exp_b_def split_def)

lemma chi2_sum:
  assumes "\<forall>x\<in>set xs. ea x \<noteq> 0 \<and> eb x \<noteq> 0"
  shows "fsum (concat (map (\<lambda>x. [pearson_term (Fin (f x)) (Fin (ea x)),
                                  pearson_term (Fin (g x)) (Fin (eb x))]) xs))
         = Fin (sum_list (map (\<lambda>x. pearson_cell (f x) (ea x) + pearson_cell (g x) (eb x)) xs))"
  using assms by (induction xs) (simp_all add: fsum_def pearson_term_Fin)

lemma pearson_chi2_one_row: "0 < a \<Longrightarrow> 0 < b \<Longrightarrow> pearson_chi2 [(a, b)] = 0"
  by (simp add: pearson_chi2_def table_statistic_def pearson_cell_def)

lemma table_statistic_nonneg:
  assumes "\<forall>(a, b)\<in>set observed. 0 < a + b"
    and "0 < sum_list (map fst observed)" and "0 < sum_list (map snd observed)"
  shows "0 \<le> table_statistic adjust observed"
  unfolding table_statistic_alt
  by (rule sum_list_nonneg) (auto intro!: add_nonneg_nonneg pearson_cell_nonneg
        simp: exp_pos [OF assms])

lemma chi2_contingency_value:
  assumes ne: "observed \<noteq> []"
    and rows: "\<forall>(a, b)\<in>set observed. 0 < a + b"
    and ca: "0 < sum_list (map fst observed)" and cb: "0 < sum_list (map snd observed)"
  shows "chi2_contingency stats observed =
     (let c = (if length observed = 2 then yates_chi2 observed else pearson_chi2 observed)
      in Inr (Fin c,
              (if length observed = 1 then Fin 1 else chi2_sf stats (Fin c) (length observed - 1)),
              length observed - 1, expected_freq observed))"
proof -
  let ?ea = "exp_a observed" and ?eb = "exp_b observed"
  have ef: "expected_freq observed = map (\<lambda>x. (Fin (?ea x), Fin (?eb x))) observed"
    using ca by (rule expected_freq_Fin)
  have pos: "\<And>x. x \<in> set observed \<Longrightarrow> 0 < ?ea x \<and> 0 < ?eb x"
    using exp_pos [OF rows ca cb] .
  then have nz: "\<forall>x\<in>set observed. ?ea x \<noteq> 0 \<and> ?eb x \<noteq> 0" by fastforce
  have nozero: "\<not> list_ex (\<lambda>(ea, eb). ea = Fin 0 \<or> eb = Fin 0) (expected_freq observed)"
    using nz by (auto simp: ef list_ex_iff)
  have obs: "map (\<lambda>(a, b). (Fin (real a), Fin (real b))) observed
             = map (\<lambda>x. (Fin (real (fst x)), Fin (real (snd x)))) observed"
    by (simp add: split_def)
  from ne have "0 < length observed" by simp
  then consider (one) "length observed = 1" | (two) "length observed = 2"
    | (more) "2 < length observed"
    by linarith
  then show ?thesis
  proof cases
    case one
    then obtain a b where o: "observed = [(a, b)]"
      by (cases observed) auto
    with ca cb have "0 < a" "0 < b" by auto
    then have "pearson_chi2 observed = 0" unfolding o by (rule pearson_chi2_one_row)
    then show ?thesis
      using ne nozero one by (simp add: chi2_contingency_def Let_def)
  next
    case two
    have "fsum (concat (map (\<lambda>((oa, ob), (e1, e2)). [pearson_term oa e1, pearson_term ob e2])
            (zip (map (\<lambda>((oa, ob), (ea, eb)). (yates oa ea, yates ob eb))
                   (zip (map (\<lambda>(a, b). (Fin (real a), Fin (real b))) observed)
                        (expected_freq observed)))
                 (expected_freq observed))))
          = Fin (yates_chi2 observed)"
      unfolding obs ef zip_map_same
      by (simp add: zip_map_same yates_Fin comp_def chi2_sum [OF nz] yates_chi2_def table_statistic_alt)
    then show ?thesis
      using ne nozero two by (simp add: chi2_contingency_def Let_def)
  next
    case more
    have "fsum (concat (map (\<lambda>((oa, ob), (e1, e2)). [pearson_term oa e1, pearson_term ob e2])
            (zip (map (\<lambda>(a, b). (Fin (real a), Fin (real b))) observed)
                 (expected_freq observed))))
          = Fin (pearson_chi2 observed)"
      unfolding obs ef zip_map_same
      by (simp add: comp_def chi2_sum [OF nz] pearson_chi2_def table_statistic_alt)
    moreover from more have "length observed - 1 \<noteq> 0" "length observed - 1 \<noteq> 1"
      "length observed \<noteq> 2" "length observed \<noteq> 1" by linarith+
    ultimately show ?thesis
      using ne nozero by (simp add: chi2_contingency_def Let_def)
  qed
qed

lemma table_rows: "\<forall>(x, y)\<in>set (contingency_table a b). 0 < x + y"
  using table_row_pos by blast

lemma table_chi2_nonneg:
  assumes "a \<noteq> []" "b \<noteq> []"
  shows "0 \<le> table_chi2 (contingency_table a b)"
  using assms
  by (simp add: table_chi2_def yates_chi2_def pearson_chi2_def
        table_statistic_nonneg [OF table_rows] table_col_a table_col_b)

lemma chi_squared_value:
  assumes a: "a \<noteq> []" and b: "b \<noteq> []"
  shows "chi_squared_test stats a b alpha cl =
     (let tbl = contingency_table a b;
          c = table_chi2 tbl;
          p = (if length tbl = 1 then Fin 1 else chi2_sf stats (Fin c) (length tbl - 1));
          effect = Fin (sqrt (c / (real (length a) + real (length b))))
      in Inr \<lparr>data_type = Categorical, test_type = Chi_squared, test_statistic = Fin c,
              p_value = p,
              confidence_interval = \<lparr>lower = Fin 0, upper = Fin (sqrt (c / (real (length a) + real (length b))) * 2)\<rparr>,
              effect_size = effect,
              is_significant = fless p (Fin alpha),
              decision = (if fless p (Fin alpha) then ''reject'' else ''fail_to_reject''),
              method_name = ''Chi-Squared Test of Independence''\<rparr>)"
proof -
  have v: "chi2_contingency stats (contingency_table a b) =
     (let c = table_chi2 (contingency_table a b)
      in Inr (Fin c,
              (if length (contingency_table a b) = 1 then Fin 1
               else chi2_sf stats (Fin c) (length (contingency_table a b) - 1)),
              length (contingency_table a b) - 1, expected_freq (contingency_table a b)))"
    unfolding table_chi2_def
    using a b by (intro chi2_contingency_value table_nonempty table_rows)
      (simp_all add: table_col_a table_col_b)
  have n: "real (length a) + real (length b) \<noteq> 0" using a by (rule len_sum_pos)
  have n': "real (length a) + real (length b) > 0" using a by (cases a) auto
  have c: "0 \<le> table_chi2 (contingency_table a b)" using a b by (rule table_chi2_nonneg)
  have d: "\<not> table_chi2 (contingency_table a b) / (real (length a) + real (length b)) < 0"
    using c n' by (simp add: not_less)
  show ?thesis
    unfolding chi_squared_test_def v Let_def
    using n d by simp
qed

lemma chi_squared_returns:
  assumes "a \<noteq> []" "b \<noteq> []"
  shows "\<exists>r. chi_squared_test stats a b alpha cl = Inr r
     \<and> data_type r = Categorical \<and> test_type r = Chi_squared
     \<and> is_significant r = fless (p_value r) (Fin alpha)"
  by (simp add: chi_squared_value [OF assms] Let_def)

lemma is_integer_Ints: "is_integer x \<longleftrightarrow> x \<in> \<int>"
  unfolding is_integer_def by (metis Ints_of_int floor_of_int Ints_cases)


subsection \<open>Propagation of \<open>nan\<close>\<close>

lemma fadd_NaN_right [simp]: "fadd x NaN = NaN"
  by (cases x) simp_all

lemma fmul_NaN_right [simp]: "fmul x NaN = NaN"
  by (cases x) simp_all

lemma fdiv_NaN_right [simp]: "fdiv x NaN = NaN"
  by (cases x) simp_all

lemma welch_single_observation:
  assumes "length grp_a = 1 \<or> length grp_b = 1"
  shows "\<exists>r. welch_t_test stats grp_a grp_b alpha cl = Inr r
     \<and> test_statistic r = NaN \<and> effect_size r = NaN
     \<and> confidence_interval r = \<lparr>lower = NaN, upper = NaN\<rparr>"
proof -
  from assms have "np_var grp_a = NaN \<or> np_var grp_b = NaN"
    by (auto simp: np_var_def)
  then show ?thesis
    by (auto simp: welch_t_test_def Let_def fsub_def)
qed

subsection \<open>The values of the t-test and of the z-test\<close>

lemma np_mean_Fin: "xs \<noteq> [] \<Longrightarrow> np_mean xs = Fin (sample_mean xs)"
  by (simp add: np_mean_def sample_mean_def)

lemma np_var_Fin: "2 \<le> length xs \<Longrightarrow> np_var xs = Fin (sample_variance xs)"
  by (simp add: np_var_def sample_variance_def sample_mean_def Let_def)

lemma sample_variance_nonneg: "2 \<le> length xs \<Longrightarrow> 0 \<le> sample_variance xs"
  unfolding sample_variance_def
  by (intro divide_nonneg_nonneg sum_list_nonneg) auto

lemma welch_value:
  assumes a: "2 \<le> length grp_a" and b: "2 \<le> length grp_b"
  shows "welch_t_test stats grp_a grp_b alpha cl =
     (let m_a = sample_mean grp_a; m_b = sample_mean grp_b;
          v_a = sample_variance grp_a; v_b = sample_variance grp_b;
          n_a = real (length grp_a); n_b = real (length grp_b);
          se = sqrt (v_a / n_a + v_b / n_b);
          t = fdiv (Fin (m_a - m_b)) (Fin se);
          df = fdiv (Fin ((v_a / n_a + v_b / n_b)\<^sup>2))
                    (Fin ((v_a / n_a)\<^sup>2 / (n_a - 1) + (v_b / n_b)\<^sup>2 / (n_b - 1)));
          p = fmul (Fin 2) (fsub (Fin 1) (t_cdf stats (fabs t) df));
          sd = sqrt (((n_a - 1) * v_a + (n_b - 1) * v_b) / (n_a + n_b - 2));
          margin = fmul (t_ppf stats (Fin (1 - (1 - cl) / 2)) df) (Fin se)
      in Inr \<lparr>data_type = Continuous, test_type = T_test, test_statistic = t, p_value = p,
              confidence_interval =
                \<lparr>lower = fsub (Fin (m_a - m_b)) margin, upper = fadd (Fin (m_a - m_b)) margin\<rparr>,
              effect_size = fdiv (Fin (m_a - m_b)) (Fin sd),
              is_significant = fless p (Fin alpha),
              decision = (if fless p (Fin alpha) then ''reject'' else ''fail_to_reject''),
              method_name = ''Welch's Two-Sample t-Test''\<rparr>)"
proof -
  let ?va = "sample_variance grp_a" and ?vb = "sample_variance grp_b"
  let ?na = "real (length grp_a)" and ?nb = "real (length grp_b)"
  from a b have ne: "grp_a \<noteq> []" "grp_b \<noteq> []" by auto
  have na: "?na \<noteq> 0" "?na - 1 \<noteq> 0" "0 < ?na" "0 < ?na - 1" using a by auto
  have nb: "?nb \<noteq> 0" "?nb - 1 \<noteq> 0" "0 < ?nb" "0 < ?nb - 1" using b by auto
  have nn: "?na + ?nb - 2 \<noteq> 0" "0 < ?na + ?nb - 2" using a b by auto
  have va: "0 \<le> ?va" using a by (rule sample_variance_nonneg)
  have vb: "0 \<le> ?vb" using b by (rule sample_variance_nonneg)
  have r1: "\<not> ?va / ?na + ?vb / ?nb < 0"
    using va vb na nb by (simp add: not_less)
  have "0 \<le> ((?na - 1) * ?va + (?nb - 1) * ?vb) / (?na + ?nb - 2)"
    using va vb na nb nn by (intro divide_nonneg_nonneg add_nonneg_nonneg mult_nonneg_nonneg) simp_all
  then have r2: "\<not> ((?na - 1) * ?va + (?nb - 1) * ?vb) / (?na + ?nb - 2) < 0"
    by (simp add: not_less)
  show ?thesis
    unfolding welch_t_test_def welch_df_def Let_def np_mean_Fin [OF ne(1)] np_mean_Fin [OF ne(2)]
      np_var_Fin [OF a] np_var_Fin [OF b]
    using na nb nn r1 r2
    by (simp add: fsub_def fpow2_def power2_eq_square)
qed

lemma welch_df_swap:
  "welch_df v_a n_a v_b n_b = welch_df v_b n_b v_a n_a"
proof -
  have c: "\<And>x y. fadd x y = fadd y x"
    by (rule fadd.induct) (simp_all add: add.commute)
  show ?thesis
    unfolding welch_df_def
    by (simp add: c [of "fdiv v_a (Fin (real n_a))"]
        c [of "fdiv (fpow2 (fdiv v_a (Fin (real n_a)))) (Fin (real n_a - 1))"])
qed

lemma binary_sum_bounds:
  "set xs \<subseteq> {0, 1 :: real} \<Longrightarrow> 0 \<le> sum_list xs \<and> sum_list xs \<le> real (length xs)"
  by (induction xs) auto

lemma z_test_value:
  assumes a: "grp_a \<noteq> []" and b: "grp_b \<noteq> []"
  shows "two_proportion_z_test stats grp_a grp_b alpha cl =
     (let n_a = real (length grp_a); n_b = real (length grp_b);
          p_a = sum_list grp_a / n_a; p_b = sum_list grp_b / n_b;
          p_pool = (sum_list grp_a + sum_list grp_b) / (n_a + n_b);
          z = fdiv (Fin (p_a - p_b)) (fsqrt (Fin (p_pool * (1 - p_pool) * (1 / n_a + 1 / n_b))));
          p = fmul (Fin 2) (fsub (Fin 1) (norm_cdf stats (fabs z)));
          margin = fmul (norm_ppf stats (Fin (1 - (1 - cl) / 2)))
                     (fsqrt (Fin (p_a * (1 - p_a) / n_a + p_b * (1 - p_b) / n_b)))
      in Inr \<lparr>data_type = Binary, test_type = Z_test, test_statistic = z, p_value = p,
              confidence_interval =
                \<lparr>lower = fsub (Fin (p_a - p_b)) margin, upper = fadd (Fin (p_a - p_b)) margin\<rparr>,
              effect_size = Fin (p_a - p_b),
              is_significant = fless p (Fin alpha),
              decision = (if fless p (Fin alpha) then ''reject'' else ''fail_to_reject''),
              method_name = ''Two-Proportion Z-Test''\<rparr>)"
  using a b by (simp add: two_proportion_z_test_def py_div_def Let_def len_sum_pos)

section \<open>The claims\<close>

text \<open>
  C1. For every pair of non-empty samples \<open>analyze_data\<close> returns a result. Its
  \<open>data_type\<close> is the type resolved by the dominance order over the two
  classifications (binary if either group is binary, else categorical if either is
  categorical, else continuous), its \<open>test_type\<close> is the test matching that type, and
  the result is the one of exactly that test: the two-proportion z-test, the
  chi-squared test or the Welch t-test.
\<close>

theorem analyze_data_dispatch:
  assumes "group_a inputs \<noteq> []" and "group_b inputs \<noteq> []"
  shows "\<exists>r. analyze_data stats inputs = Inr r
     \<and> data_type r =
         (if detect_data_type (group_a inputs) = Binary \<or> detect_data_type (group_b inputs) = Binary
          then Binary
          else if detect_data_type (group_a inputs) = Categorical
                \<or> detect_data_type (group_b inputs) = Categorical
          then Categorical else Continuous)
     \<and> test_type r =
         (case data_type r of Binary \<Rightarrow> Z_test | Categorical \<Rightarrow> Chi_squared | Continuous \<Rightarrow> T_test)
     \<and> analyze_data stats inputs =
         (case data_type r of
            Binary \<Rightarrow> two_proportion_z_test stats (group_a inputs) (group_b inputs)
                        (significance_level inputs) (confidence_level inputs)
          | Categorical \<Rightarrow> chi_squared_test stats (group_a inputs) (group_b inputs)
                        (significance_level inputs) (confidence_level inputs)
          | Continuous \<Rightarrow> welch_t_test stats (group_a inputs) (group_b inputs)
                        (significance_level inputs) (confidence_level inputs))"
proof -
  let ?a = "group_a inputs" and ?b = "group_b inputs"
  let ?al = "significance_level inputs" and ?cl = "confidence_level inputs"
  obtain rz where rz: "two_proportion_z_test stats ?a ?b ?al ?cl = Inr rz"
    "data_type rz = Binary" "test_type rz = Z_test"
    using z_test_returns [OF assms] by blast
  obtain rc where rc: "chi_squared_test stats ?a ?b ?al ?cl = Inr rc"
    "data_type rc = Categorical" "test_type rc = Chi_squared"
    using chi_squared_returns [OF assms] by blast
  obtain rt where rt: "welch_t_test stats ?a ?b ?al ?cl = Inr rt"
    "data_type rt = Continuous" "test_type rt = T_test"
    using welch_returns by blast
  show ?thesis
    unfolding analyze_data_def Let_def
    using rz rc rt by auto
qed

theorem analyze_data_dispatch_witness:
  "group_a scenario_categorical \<noteq> [] \<and> group_b scenario_categorical \<noteq> []
   \<and> detect_data_type (group_a scenario_categorical) = Categorical
   \<and> (\<exists>r. analyze_data (const_stats (Fin 0)) scenario_categorical = Inr r
          \<and> data_type r = Categorical \<and> test_type r = Chi_squared)"
proof -
  have a: "group_a scenario_categorical \<noteq> []" and b: "group_b scenario_categorical \<noteq> []"
    by (simp_all add: scenario_categorical_def)
  have da: "detect_data_type (group_a scenario_categorical) = Categorical"
    by (simp add: scenario_categorical_def detect_data_type_def is_integer_def)
  have db: "detect_data_type (group_b scenario_categorical) = Categorical"
    by (simp add: scenario_categorical_def detect_data_type_def is_integer_def)
  show ?thesis
    using analyze_data_dispatch [OF a b, of "const_stats (Fin 0)"] a b
    unfolding da db by auto
qed

text \<open>
  C7. \<open>detect_data_type\<close> returns binary exactly when every value is 0 or 1;
  categorical exactly when the sample is not binary, has at most 10 distinct values
  and all of them are integral; continuous otherwise. A sample of identical 5s is
  categorical. (The characterisation holds for the empty sample too.)
\<close>

theorem detect_data_type_classes:
  "(detect_data_type data = Binary \<longleftrightarrow> (\<forall>v\<in>set data. v = 0 \<or> v = 1))
   \<and> (detect_data_type data = Categorical \<longleftrightarrow>
        \<not> (\<forall>v\<in>set data. v = 0 \<or> v = 1) \<and> card (set data) \<le> 10 \<and> (\<forall>v\<in>set data. v \<in> \<int>))
   \<and> (detect_data_type data = Continuous \<longleftrightarrow>
        \<not> (\<forall>v\<in>set data. v = 0 \<or> v = 1)
        \<and> \<not> (card (set data) \<le> 10 \<and> (\<forall>v\<in>set data. v \<in> \<int>)))
   \<and> detect_data_type (replicate (Suc n) 5) = Categorical"
  by (auto simp: detect_data_type_def Let_def list_all_iff is_integer_Ints
        length_remdups_card_conv)

theorem detect_data_type_classes_witness:
  "\<not> list_all (\<lambda>v. v = 0 \<or> v = 1) [5, 5, 5 :: real] \<and> card (set [5, 5, 5 :: real]) \<le> 10
   \<and> list_all (\<lambda>v. v \<in> \<int>) [5, 5, 5 :: real]
   \<and> detect_data_type [5, 5, 5] = Categorical"
  using detect_data_type_classes [of "[5, 5, 5]" 0]
  by simp

text \<open>
  C10. \<open>detect_data_type\<close> classifies the empty sample as binary, so a call of
  \<open>analyze_data\<close> with an empty group is the call of the two-proportion z-test on the
  same arguments; no check of the input comes before the dispatch. (The z-test then
  raises on the division by the length of the empty group.)
\<close>

theorem empty_group_dispatch:
  "detect_data_type [] = Binary
   \<and> (group_a inputs = [] \<or> group_b inputs = [] \<longrightarrow>
        analyze_data stats inputs =
          two_proportion_z_test stats (group_a inputs) (group_b inputs)
            (significance_level inputs) (confidence_level inputs)
        \<and> analyze_data stats inputs = Inl ZeroDivisionError)"
proof -
  have e: "detect_data_type [] = Binary"
    by (simp add: detect_data_type_def)
  show ?thesis
    using e by (auto simp: analyze_data_def Let_def z_test_empty)
qed

theorem empty_group_dispatch_witness:
  "group_a empty_group_inputs = []
   \<and> analyze_data (const_stats (Fin 0)) empty_group_inputs =
       two_proportion_z_test (const_stats (Fin 0)) [] [5 / 2, 7 / 2] (1 / 20) (19 / 20)
   \<and> analyze_data (const_stats (Fin 0)) empty_group_inputs = Inl ZeroDivisionError"
  using empty_group_dispatch [of empty_group_inputs "const_stats (Fin 0)"]
  by (auto simp: empty_group_inputs_def)


text \<open>
  C5, as the claim states it, fails: a group of one observation in a call resolved to
  the t-test raises nothing. With \<open>group_a = [2.5]\<close> and \<open>group_b = [1.5, 2.5, 3.7]\<close>
  the call returns a result, every number of which is \<open>nan\<close> (the distribution
  functions return \<open>nan\<close> on \<open>nan\<close>).
\<close>

theorem single_observation_returns:
  "length (group_a single_observation_inputs) = 1
   \<and> detect_data_type (group_a single_observation_inputs) = Continuous
   \<and> detect_data_type (group_b single_observation_inputs) = Continuous
   \<and> analyze_data (const_stats NaN) single_observation_inputs =
       Inr \<lparr>data_type = Continuous, test_type = T_test, test_statistic = NaN, p_value = NaN,
            confidence_interval = \<lparr>lower = NaN, upper = NaN\<rparr>, effect_size = NaN,
            is_significant = False, decision = ''fail_to_reject'',
            method_name = ''Welch's Two-Sample t-Test''\<rparr>"
  by (simp add: single_observation_inputs_def analyze_data_def detect_data_type_def
        is_integer_def welch_t_test_def np_var_def np_mean_def welch_df_def fsub_def fpow2_def
        const_stats_def Let_def)

text \<open>
  C5, amended. A call with an empty group fails: it raises \<^verbatim>\<open>ZeroDivisionError\<close>
  from the z-test. A call with a group of one observation that is resolved to the
  t-test raises nothing: it returns a t-test result whose statistic, effect size and
  confidence bounds are \<open>nan\<close> (not zero).
\<close>

theorem insufficient_data_behaviour:
  "(group_a inputs = [] \<or> group_b inputs = [] \<longrightarrow>
      analyze_data stats inputs = Inl ZeroDivisionError)
   \<and> ((length (group_a inputs) = 1 \<or> length (group_b inputs) = 1)
        \<and> detect_data_type (group_a inputs) = Continuous
        \<and> detect_data_type (group_b inputs) = Continuous \<longrightarrow>
      (\<exists>r. analyze_data stats inputs = Inr r \<and> test_type r = T_test
          \<and> test_statistic r = NaN \<and> effect_size r = NaN
          \<and> confidence_interval r = \<lparr>lower = NaN, upper = NaN\<rparr>))"
proof (intro conjI impI)
  assume "group_a inputs = [] \<or> group_b inputs = []"
  then show "analyze_data stats inputs = Inl ZeroDivisionError"
    by (auto simp: analyze_data_def Let_def z_test_empty detect_data_type_def)
next
  assume h: "(length (group_a inputs) = 1 \<or> length (group_b inputs) = 1)
        \<and> detect_data_type (group_a inputs) = Continuous
        \<and> detect_data_type (group_b inputs) = Continuous"
  then have e: "analyze_data stats inputs =
      welch_t_test stats (group_a inputs) (group_b inputs)
        (significance_level inputs) (confidence_level inputs)"
    by (simp add: analyze_data_def Let_def)
  from h have l: "length (group_a inputs) = 1 \<or> length (group_b inputs) = 1" by simp
  obtain r where "welch_t_test stats (group_a inputs) (group_b inputs)
        (significance_level inputs) (confidence_level inputs) = Inr r"
      "test_statistic r = NaN" "effect_size r = NaN"
      "confidence_interval r = \<lparr>lower = NaN, upper = NaN\<rparr>"
    using welch_single_observation [OF l] by blast
  moreover have "test_type r = T_test"
    using calculation(1) by (auto simp: welch_t_test_def Let_def)
  ultimately show "\<exists>r. analyze_data stats inputs = Inr r \<and> test_type r = T_test
          \<and> test_statistic r = NaN \<and> effect_size r = NaN
          \<and> confidence_interval r = \<lparr>lower = NaN, upper = NaN\<rparr>"
    unfolding e by blast
qed

theorem insufficient_data_behaviour_witness:
  "group_a empty_group_inputs = []
   \<and> analyze_data (const_stats (Fin 0)) empty_group_inputs = Inl ZeroDivisionError
   \<and> length (group_a single_observation_inputs) = 1
   \<and> detect_data_type (group_a single_observation_inputs) = Continuous
   \<and> detect_data_type (group_b single_observation_inputs) = Continuous
   \<and> (\<exists>r. analyze_data (const_stats (Fin 0)) single_observation_inputs = Inr r
          \<and> test_type r = T_test \<and> test_statistic r = NaN \<and> effect_size r = NaN
          \<and> confidence_interval r = \<lparr>lower = NaN, upper = NaN\<rparr>)"
proof -
  have a: "group_a empty_group_inputs = []" by (simp add: empty_group_inputs_def)
  have l: "length (group_a single_observation_inputs) = 1"
    by (simp add: single_observation_inputs_def)
  have da: "detect_data_type (group_a single_observation_inputs) = Continuous"
    by (simp add: single_observation_inputs_def detect_data_type_def is_integer_def)
  have db: "detect_data_type (group_b single_observation_inputs) = Continuous"
    by (simp add: single_observation_inputs_def detect_data_type_def is_integer_def)
  show ?thesis
    using insufficient_data_behaviour [of empty_group_inputs "const_stats (Fin 0)"]
      insufficient_data_behaviour [of single_observation_inputs "const_stats (Fin 0)"]
      a l da db
    by simp
qed

text \<open>
  C6, as the claim states it, fails: with a significance level of 2 and a confidence
  level of -1, on \<open>group_a = [1, 1, 0]\<close> and \<open>group_b = [1, 0, 0]\<close>, the call returns a
  z-test result, with the statistic and the effect size of these samples.
\<close>

theorem out_of_range_levels_accepted:
  "\<not> (0 < significance_level out_of_range_inputs \<and> significance_level out_of_range_inputs < 1)
   \<and> \<not> (0 < confidence_level out_of_range_inputs \<and> confidence_level out_of_range_inputs < 1)
   \<and> \<not> isl (analyze_data (const_stats (Fin (1 / 2))) out_of_range_inputs)
   \<and> test_type (projr (analyze_data (const_stats (Fin (1 / 2))) out_of_range_inputs)) = Z_test
   \<and> test_statistic (projr (analyze_data (const_stats (Fin (1 / 2))) out_of_range_inputs))
       = Fin ((1 / 3) / sqrt (1 / 6))
   \<and> effect_size (projr (analyze_data (const_stats (Fin (1 / 2))) out_of_range_inputs))
       = Fin (1 / 3)"
  by (simp add: out_of_range_inputs_def analyze_data_def detect_data_type_def
        two_proportion_z_test_def py_div_def fsub_def const_stats_def Let_def)

text \<open>
  C6, amended. \<open>analyze_data\<close> does not check the significance level or the
  confidence level: for every pair of non-empty samples it returns a result whatever
  the two levels are, and \<open>is_significant\<close> is \<open>p_value < significance_level\<close>.
\<close>

theorem levels_not_validated:
  assumes "group_a inputs \<noteq> []" and "group_b inputs \<noteq> []"
  shows "\<exists>r. analyze_data stats inputs = Inr r
     \<and> is_significant r = fless (p_value r) (Fin (significance_level inputs))"
proof -
  let ?a = "group_a inputs" and ?b = "group_b inputs"
  let ?al = "significance_level inputs" and ?cl = "confidence_level inputs"
  obtain rz where rz: "two_proportion_z_test stats ?a ?b ?al ?cl = Inr rz"
    "is_significant rz = fless (p_value rz) (Fin ?al)"
    using z_test_returns [OF assms] by blast
  obtain rc where rc: "chi_squared_test stats ?a ?b ?al ?cl = Inr rc"
    "is_significant rc = fless (p_value rc) (Fin ?al)"
    using chi_squared_returns [OF assms] by blast
  obtain rt where rt: "welch_t_test stats ?a ?b ?al ?cl = Inr rt"
    "is_significant rt = fless (p_value rt) (Fin ?al)"
    using welch_returns by blast
  show ?thesis
    unfolding analyze_data_def Let_def
    using rz rc rt by auto
qed

theorem levels_not_validated_witness:
  "group_a out_of_range_inputs \<noteq> [] \<and> group_b out_of_range_inputs \<noteq> []
   \<and> significance_level out_of_range_inputs = 2 \<and> confidence_level out_of_range_inputs = - 1
   \<and> (\<exists>r. analyze_data (const_stats (Fin (1 / 2))) out_of_range_inputs = Inr r
          \<and> is_significant r = fless (p_value r) (Fin 2))"
proof -
  have a: "group_a out_of_range_inputs \<noteq> []" and b: "group_b out_of_range_inputs \<noteq> []"
    by (simp_all add: out_of_range_inputs_def)
  have s: "significance_level out_of_range_inputs = 2"
    and c: "confidence_level out_of_range_inputs = - 1"
    by (simp_all add: out_of_range_inputs_def)
  show ?thesis
    using levels_not_validated [OF a b, of "const_stats (Fin (1 / 2))"] a b c
    unfolding s by simp
qed

text \<open>
  C3, as the claim states it, fails on a table of two distinct values: for
  \<open>group_a = [2, 2, 2, 3]\<close> and \<open>group_b = [2, 3, 3, 3]\<close> the table is
  \<open>[(3, 1), (1, 3)]\<close>, the uncorrected Pearson statistic is 2, and the test returns
  the statistic 1/2, which carries Yates' correction.
\<close>

theorem two_values_yates_corrected:
  "detect_data_type [2, 2, 2, 3] = Categorical \<and> detect_data_type [2, 3, 3, 3] = Categorical
   \<and> contingency_table [2, 2, 2, 3] [2, 3, 3, 3] = [(3, 1), (1, 3)]
   \<and> pearson_chi2 [(3, 1), (1, 3)] = 2
   \<and> test_statistic (projr (chi_squared_test (const_stats (Fin 0)) [2, 2, 2, 3] [2, 3, 3, 3]
        (1 / 20) (19 / 20))) = Fin (1 / 2)"
  by (simp add: detect_data_type_def is_integer_def contingency_table_def
        pearson_chi2_def yates_chi2_def table_statistic_def pearson_cell_def yates_obs_def
        power2_eq_square table_chi2_def chi_squared_value Let_def)

text \<open>
  C3, amended. For every pair of non-empty samples the chi-squared test builds its
  table with one row per distinct value of the sorted union of both groups and one
  column per group, the entries being the observed counts. With \<open>rows - 1\<close> degrees of
  freedom, its statistic is the uncorrected Pearson statistic of that table, except
  on a table of exactly two rows, where it is the Pearson statistic after Yates'
  correction; the p-value is the chi-squared survival function at the statistic (1 on
  a table of one row).
\<close>

theorem chi_squared_statistic:
  assumes "grp_a \<noteq> []" and "grp_b \<noteq> []"
  shows "contingency_table grp_a grp_b =
           map (\<lambda>v. (count_list grp_a v, count_list grp_b v))
               (sorted_list_of_set (set grp_a \<union> set grp_b))
     \<and> length (contingency_table grp_a grp_b) = card (set grp_a \<union> set grp_b)
     \<and> (\<exists>r. chi_squared_test stats grp_a grp_b alpha cl = Inr r
          \<and> test_statistic r =
              Fin (if length (contingency_table grp_a grp_b) = 2
                   then yates_chi2 (contingency_table grp_a grp_b)
                   else pearson_chi2 (contingency_table grp_a grp_b))
          \<and> p_value r =
              (if length (contingency_table grp_a grp_b) = 1 then Fin 1
               else chi2_sf stats (test_statistic r)
                      (length (contingency_table grp_a grp_b) - 1)))"
proof -
  have s: "sort (remdups (grp_a @ grp_b)) = sorted_list_of_set (set grp_a \<union> set grp_b)"
    using sorted_list_of_set_sort_remdups [of "grp_a @ grp_b"] by simp
  have t: "contingency_table grp_a grp_b =
           map (\<lambda>v. (count_list grp_a v, count_list grp_b v))
               (sorted_list_of_set (set grp_a \<union> set grp_b))"
    by (simp add: contingency_table_def s)
  have l: "length (contingency_table grp_a grp_b) = card (set grp_a \<union> set grp_b)"
    by (simp add: t)
  show ?thesis
    using t l by (simp add: chi_squared_value [OF assms] Let_def table_chi2_def)
qed

theorem chi_squared_statistic_witness:
  "[2, 2, 2, 3 :: real] \<noteq> [] \<and> [2, 3, 3, 3 :: real] \<noteq> []
   \<and> length (contingency_table [2, 2, 2, 3] [2, 3, 3, 3]) = 2
   \<and> (\<exists>r. chi_squared_test (const_stats (Fin 0)) [2, 2, 2, 3] [2, 3, 3, 3] (1 / 20) (19 / 20)
            = Inr r
          \<and> test_statistic r = Fin (yates_chi2 (contingency_table [2, 2, 2, 3] [2, 3, 3, 3])))"
proof -
  have a: "[2, 2, 2, 3 :: real] \<noteq> []" and b: "[2, 3, 3, 3 :: real] \<noteq> []" by simp_all
  have l: "length (contingency_table [2, 2, 2, 3] [2, 3, 3, 3]) = 2"
    by (simp add: contingency_table_def)
  show ?thesis
    using chi_squared_statistic [OF a b, of "const_stats (Fin 0)" "1 / 20" "19 / 20"] l
    by (auto simp: const_stats_def)
qed



text \<open>
  C2. For two samples of at least two observations each, the Welch t-test returns the
  statistic \<open>(meanA - meanB) / sqrt (varA / nA + varB / nB)\<close> with the sample variances
  (denominator \<open>n - 1\<close>), the Welch--Satterthwaite degrees of freedom
  \<open>(varA / nA + varB / nB)\<^sup>2 / ((varA / nA)\<^sup>2 / (nA - 1) + (varB / nB)\<^sup>2 / (nB - 1))\<close>,
  the p-value \<open>2 * (1 - CDF_t(|t|, df))\<close>, Cohen's d with the pooled standard deviation
  \<open>sqrt (((nA - 1) * varA + (nB - 1) * varB) / (nA + nB - 2))\<close>, and a confidence
  interval centred on \<open>meanA - meanB\<close> with half-width
  \<open>t_ppf(1 - (1 - confidence) / 2, df) * sqrt (varA / nA + varB / nB)\<close>. The divisions
  are numpy divisions: by zero they give \<open>inf\<close> or \<open>nan\<close>.
\<close>

theorem welch_t_test_formulas:
  assumes "2 \<le> length grp_a" and "2 \<le> length grp_b"
  shows "\<exists>r. welch_t_test stats grp_a grp_b alpha cl = Inr r
     \<and> np_var grp_a = Fin (sample_variance grp_a) \<and> np_var grp_b = Fin (sample_variance grp_b)
     \<and> test_statistic r =
         fdiv (Fin (sample_mean grp_a - sample_mean grp_b))
              (Fin (sqrt (sample_variance grp_a / real (length grp_a)
                          + sample_variance grp_b / real (length grp_b))))
     \<and> welch_df (np_var grp_a) (length grp_a) (np_var grp_b) (length grp_b) =
         fdiv (Fin ((sample_variance grp_a / real (length grp_a)
                     + sample_variance grp_b / real (length grp_b))\<^sup>2))
              (Fin ((sample_variance grp_a / real (length grp_a))\<^sup>2 / (real (length grp_a) - 1)
                    + (sample_variance grp_b / real (length grp_b))\<^sup>2 / (real (length grp_b) - 1)))
     \<and> p_value r =
         fmul (Fin 2) (fsub (Fin 1) (t_cdf stats (fabs (test_statistic r))
            (welch_df (np_var grp_a) (length grp_a) (np_var grp_b) (length grp_b))))
     \<and> effect_size r =
         fdiv (Fin (sample_mean grp_a - sample_mean grp_b))
              (Fin (sqrt (((real (length grp_a) - 1) * sample_variance grp_a
                           + (real (length grp_b) - 1) * sample_variance grp_b)
                          / (real (length grp_a) + real (length grp_b) - 2))))
     \<and> lower (confidence_interval r) =
         fsub (Fin (sample_mean grp_a - sample_mean grp_b))
              (fmul (t_ppf stats (Fin (1 - (1 - cl) / 2))
                       (welch_df (np_var grp_a) (length grp_a) (np_var grp_b) (length grp_b)))
                    (Fin (sqrt (sample_variance grp_a / real (length grp_a)
                                + sample_variance grp_b / real (length grp_b)))))
     \<and> upper (confidence_interval r) =
         fadd (Fin (sample_mean grp_a - sample_mean grp_b))
              (fmul (t_ppf stats (Fin (1 - (1 - cl) / 2))
                       (welch_df (np_var grp_a) (length grp_a) (np_var grp_b) (length grp_b)))
                    (Fin (sqrt (sample_variance grp_a / real (length grp_a)
                                + sample_variance grp_b / real (length grp_b)))))"
proof -
  have na: "real (length grp_a) \<noteq> 0" "real (length grp_a) - 1 \<noteq> 0" using assms(1) by auto
  have nb: "real (length grp_b) \<noteq> 0" "real (length grp_b) - 1 \<noteq> 0" using assms(2) by auto
  have df: "welch_df (np_var grp_a) (length grp_a) (np_var grp_b) (length grp_b) =
         fdiv (Fin ((sample_variance grp_a / real (length grp_a)
                     + sample_variance grp_b / real (length grp_b))\<^sup>2))
              (Fin ((sample_variance grp_a / real (length grp_a))\<^sup>2 / (real (length grp_a) - 1)
                    + (sample_variance grp_b / real (length grp_b))\<^sup>2 / (real (length grp_b) - 1)))"
    unfolding welch_df_def np_var_Fin [OF assms(1)] np_var_Fin [OF assms(2)]
    using na nb by (simp add: fpow2_def power2_eq_square)
  show ?thesis
    unfolding df
    by (simp add: welch_value [OF assms] Let_def np_var_Fin [OF assms(1)] np_var_Fin [OF assms(2)])
qed

theorem welch_t_test_formulas_witness:
  "2 \<le> length [3 / 2, 7 / 2 :: real] \<and> 2 \<le> length [5 / 2, 13 / 2 :: real]
   \<and> (\<exists>r. welch_t_test (const_stats (Fin (1 / 2))) [3 / 2, 7 / 2] [5 / 2, 13 / 2]
            (1 / 20) (19 / 20) = Inr r
          \<and> test_statistic r = Fin (- 2 / sqrt 5)
          \<and> welch_df (np_var [3 / 2, 7 / 2]) (length [3 / 2, 7 / 2 :: real])
               (np_var [5 / 2, 13 / 2]) (length [5 / 2, 13 / 2 :: real]) = Fin (25 / 17)
          \<and> effect_size r = Fin (- 2 / sqrt 5))"
proof -
  have a: "2 \<le> length [3 / 2, 7 / 2 :: real]" and b: "2 \<le> length [5 / 2, 13 / 2 :: real]"
    by simp_all
  have m: "sample_mean [3 / 2, 7 / 2] = 5 / 2" "sample_mean [5 / 2, 13 / 2] = 9 / 2"
    by (simp_all add: sample_mean_def)
  have v: "sample_variance [3 / 2, 7 / 2] = 2" "sample_variance [5 / 2, 13 / 2] = 8"
    by (simp_all add: sample_variance_def m power2_eq_square)
  show ?thesis
    using welch_t_test_formulas [OF a b, of "const_stats (Fin (1 / 2))" "1 / 20" "19 / 20"]
    unfolding m v
    by (auto simp: const_stats_def fsub_def power2_eq_square)
qed

text \<open>
  C9. For two samples of at least two observations each and a Welch standard error
  that is not zero, the t-test on \<open>(A, B)\<close> and on \<open>(B, A)\<close> returns finite statistics
  of opposite sign and equal magnitude, the same finite degrees of freedom, and the
  same p-value.
\<close>

theorem welch_t_test_swap:
  assumes "2 \<le> length grp_a" and "2 \<le> length grp_b"
    and "sqrt (sample_variance grp_a / real (length grp_a)
               + sample_variance grp_b / real (length grp_b)) \<noteq> 0"
  shows "\<exists>r1 r2 t d. welch_t_test stats grp_a grp_b alpha cl = Inr r1
     \<and> welch_t_test stats grp_b grp_a alpha cl = Inr r2
     \<and> test_statistic r1 = Fin t \<and> test_statistic r2 = Fin (- t)
     \<and> fabs (test_statistic r1) = fabs (test_statistic r2)
     \<and> welch_df (np_var grp_a) (length grp_a) (np_var grp_b) (length grp_b) = Fin d
     \<and> welch_df (np_var grp_b) (length grp_b) (np_var grp_a) (length grp_a) = Fin d
     \<and> p_value r1 = p_value r2"
proof -
  let ?va = "sample_variance grp_a" and ?vb = "sample_variance grp_b"
  let ?na = "real (length grp_a)" and ?nb = "real (length grp_b)"
  have na: "0 < ?na" "0 < ?na - 1" using assms(1) by auto
  have nb: "0 < ?nb" "0 < ?nb - 1" using assms(2) by auto
  have va: "0 \<le> ?va / ?na" using assms(1) na by (simp add: sample_variance_nonneg)
  have vb: "0 \<le> ?vb / ?nb" using assms(2) nb by (simp add: sample_variance_nonneg)
  from assms(3) have s: "?va / ?na + ?vb / ?nb \<noteq> 0" by auto
  have s': "?vb / ?nb + ?va / ?na \<noteq> 0" using s by (simp add: add.commute)
  have "0 < (?va / ?na)\<^sup>2 / (?na - 1) + (?vb / ?nb)\<^sup>2 / (?nb - 1)"
  proof (cases "?va / ?na = 0")
    case True
    with s have "?vb / ?nb \<noteq> 0" by simp
    then have "0 < (?vb / ?nb)\<^sup>2 / (?nb - 1)" using nb by simp
    moreover have "0 \<le> (?va / ?na)\<^sup>2 / (?na - 1)" using na by simp
    ultimately show ?thesis by linarith
  next
    case False
    then have "0 < (?va / ?na)\<^sup>2 / (?na - 1)" using na by simp
    moreover have "0 \<le> (?vb / ?nb)\<^sup>2 / (?nb - 1)" using nb by simp
    ultimately show ?thesis by linarith
  qed
  then have dn: "(?va / ?na)\<^sup>2 / (?na - 1) + (?vb / ?nb)\<^sup>2 / (?nb - 1) \<noteq> 0" by simp
  have dn': "(?vb / ?nb)\<^sup>2 / (?nb - 1) + (?va / ?na)\<^sup>2 / (?na - 1) \<noteq> 0"
    using dn by (simp add: add.commute)
  have df1: "welch_df (np_var grp_a) (length grp_a) (np_var grp_b) (length grp_b) =
      Fin ((?va / ?na + ?vb / ?nb)\<^sup>2
           / ((?va / ?na)\<^sup>2 / (?na - 1) + (?vb / ?nb)\<^sup>2 / (?nb - 1)))"
    unfolding welch_df_def np_var_Fin [OF assms(1)] np_var_Fin [OF assms(2)]
    using na nb dn by (simp add: fpow2_def power2_eq_square)
  have df2: "welch_df (np_var grp_b) (length grp_b) (np_var grp_a) (length grp_a) =
      welch_df (np_var grp_a) (length grp_a) (np_var grp_b) (length grp_b)"
    by (rule welch_df_swap)
  have se: "sqrt (?vb / ?nb + ?va / ?na) = sqrt (?va / ?na + ?vb / ?nb)"
    by (simp add: add.commute)
  have neg: "\<And>x. (sample_mean grp_b - sample_mean grp_a) / x
      = - ((sample_mean grp_a - sample_mean grp_b) / x)"
    by (simp add: minus_divide_left)
  have ab: "\<bar>sample_mean grp_b - sample_mean grp_a\<bar> = \<bar>sample_mean grp_a - sample_mean grp_b\<bar>"
    by (rule abs_minus_commute)
  have c1: "?vb / ?nb + ?va / ?na = ?va / ?na + ?vb / ?nb"
    by (simp add: add.commute)
  have c2: "(?vb / ?nb)\<^sup>2 / (?nb - 1) + (?va / ?na)\<^sup>2 / (?na - 1)
      = (?va / ?na)\<^sup>2 / (?na - 1) + (?vb / ?nb)\<^sup>2 / (?nb - 1)"
    by (simp add: add.commute)
  show ?thesis
    unfolding welch_value [OF assms(1,2)] welch_value [OF assms(2,1)] Let_def df2 df1 c1 c2
    using assms(3) s dn
    by (simp add: neg ab)
qed

theorem welch_t_test_swap_witness:
  "2 \<le> length [3 / 2, 7 / 2 :: real] \<and> 2 \<le> length [5 / 2, 13 / 2 :: real]
   \<and> sqrt (sample_variance [3 / 2, 7 / 2] / real (length [3 / 2, 7 / 2 :: real])
           + sample_variance [5 / 2, 13 / 2] / real (length [5 / 2, 13 / 2 :: real])) \<noteq> 0
   \<and> (\<exists>r1 r2. welch_t_test (const_stats (Fin (1 / 2))) [3 / 2, 7 / 2] [5 / 2, 13 / 2]
              (1 / 20) (19 / 20) = Inr r1
          \<and> welch_t_test (const_stats (Fin (1 / 2))) [5 / 2, 13 / 2] [3 / 2, 7 / 2]
              (1 / 20) (19 / 20) = Inr r2
          \<and> test_statistic r1 = Fin (- 2 / sqrt 5) \<and> test_statistic r2 = Fin (2 / sqrt 5)
          \<and> p_value r1 = p_value r2)"
proof -
  have a: "2 \<le> length [3 / 2, 7 / 2 :: real]" and b: "2 \<le> length [5 / 2, 13 / 2 :: real]"
    by simp_all
  have m: "sample_mean [3 / 2, 7 / 2] = 5 / 2" "sample_mean [5 / 2, 13 / 2] = 9 / 2"
    by (simp_all add: sample_mean_def)
  have v: "sample_variance [3 / 2, 7 / 2] = 2" "sample_variance [5 / 2, 13 / 2] = 8"
    by (simp_all add: sample_variance_def m power2_eq_square)
  have s: "sqrt (sample_variance [3 / 2, 7 / 2] / real (length [3 / 2, 7 / 2 :: real])
           + sample_variance [5 / 2, 13 / 2] / real (length [5 / 2, 13 / 2 :: real])) \<noteq> 0"
    unfolding v by simp
  have t: "test_statistic (projr (welch_t_test (const_stats (Fin (1 / 2))) [3 / 2, 7 / 2]
      [5 / 2, 13 / 2] (1 / 20) (19 / 20))) = Fin (- 2 / sqrt 5)"
    by (simp add: welch_value [OF a b] Let_def m v)
  show ?thesis
    using welch_t_test_swap [OF a b s, of "const_stats (Fin (1 / 2))" "1 / 20" "19 / 20"] s t
    by auto
qed

text \<open>
  C4. For two non-empty samples of values 0 and 1, the two-proportion z-test returns
  the statistic \<open>(pA - pB) / sqrt (p * (1 - p) * (1 / nA + 1 / nB))\<close> with the pooled
  proportion \<open>p = (sumA + sumB) / (nA + nB)\<close>, the two-tailed p-value
  \<open>2 * (1 - norm_cdf |z|)\<close>, a confidence interval of \<open>pA - pB\<close> plus and minus
  \<open>norm_ppf(1 - (1 - confidence) / 2)\<close> times the unpooled standard error
  \<open>sqrt (pA * (1 - pA) / nA + pB * (1 - pB) / nB)\<close>, and the effect size \<open>pA - pB\<close>.
\<close>

theorem z_test_formulas:
  assumes "grp_a \<noteq> []" and "grp_b \<noteq> []"
    and "set grp_a \<subseteq> {0, 1}" and "set grp_b \<subseteq> {0, 1}"
  shows "\<exists>r. two_proportion_z_test stats grp_a grp_b alpha cl = Inr r
     \<and> test_statistic r =
         fdiv (Fin (sum_list grp_a / real (length grp_a) - sum_list grp_b / real (length grp_b)))
              (Fin (sqrt ((sum_list grp_a + sum_list grp_b) / (real (length grp_a) + real (length grp_b))
                          * (1 - (sum_list grp_a + sum_list grp_b)
                                 / (real (length grp_a) + real (length grp_b)))
                          * (1 / real (length grp_a) + 1 / real (length grp_b)))))
     \<and> p_value r = fmul (Fin 2) (fsub (Fin 1) (norm_cdf stats (fabs (test_statistic r))))
     \<and> lower (confidence_interval r) =
         fsub (Fin (sum_list grp_a / real (length grp_a) - sum_list grp_b / real (length grp_b)))
              (fmul (norm_ppf stats (Fin (1 - (1 - cl) / 2)))
                    (Fin (sqrt (sum_list grp_a / real (length grp_a)
                                  * (1 - sum_list grp_a / real (length grp_a)) / real (length grp_a)
                                + sum_list grp_b / real (length grp_b)
                                  * (1 - sum_list grp_b / real (length grp_b)) / real (length grp_b)))))
     \<and> upper (confidence_interval r) =
         fadd (Fin (sum_list grp_a / real (length grp_a) - sum_list grp_b / real (length grp_b)))
              (fmul (norm_ppf stats (Fin (1 - (1 - cl) / 2)))
                    (Fin (sqrt (sum_list grp_a / real (length grp_a)
                                  * (1 - sum_list grp_a / real (length grp_a)) / real (length grp_a)
                                + sum_list grp_b / real (length grp_b)
                                  * (1 - sum_list grp_b / real (length grp_b)) / real (length grp_b)))))
     \<and> effect_size r =
         Fin (sum_list grp_a / real (length grp_a) - sum_list grp_b / real (length grp_b))"
proof -
  let ?na = "real (length grp_a)" and ?nb = "real (length grp_b)"
  let ?xa = "sum_list grp_a" and ?xb = "sum_list grp_b"
  have na: "0 < ?na" using assms(1) by (cases grp_a) auto
  have nb: "0 < ?nb" using assms(2) by (cases grp_b) auto
  have xa: "0 \<le> ?xa" "?xa \<le> ?na" using binary_sum_bounds [OF assms(3)] by auto
  have xb: "0 \<le> ?xb" "?xb \<le> ?nb" using binary_sum_bounds [OF assms(4)] by auto
  have pa: "0 \<le> ?xa / ?na" "0 \<le> 1 - ?xa / ?na" using xa na by simp_all
  have pb: "0 \<le> ?xb / ?nb" "0 \<le> 1 - ?xb / ?nb" using xb nb by simp_all
  have nn: "0 < ?na + ?nb" using na nb by (rule add_pos_pos)
  have le: "?xa + ?xb \<le> ?na + ?nb" using xa xb by linarith
  have p1: "(?xa + ?xb) / (?na + ?nb) \<le> 1"
    using le nn divide_le_eq_1_pos by blast
  have p0: "0 \<le> (?xa + ?xb) / (?na + ?nb)"
  proof (rule divide_nonneg_nonneg)
    show "0 \<le> ?xa + ?xb" using xa xb by linarith
    show "0 \<le> ?na + ?nb" using nn by linarith
  qed
  have pp: "0 \<le> (?xa + ?xb) / (?na + ?nb)" "0 \<le> 1 - (?xa + ?xb) / (?na + ?nb)"
    using p0 p1 by linarith+
  have "0 \<le> (?xa + ?xb) / (?na + ?nb) * (1 - (?xa + ?xb) / (?na + ?nb)) * (1 / ?na + 1 / ?nb)"
  proof -
    have q: "0 \<le> 1 / ?na + 1 / ?nb" using na nb by simp
    show ?thesis
      using mult_nonneg_nonneg [OF mult_nonneg_nonneg [OF pp(1) pp(2)] q] .
  qed
  then have r1: "\<not> (?xa + ?xb) / (?na + ?nb) * (1 - (?xa + ?xb) / (?na + ?nb))
      * (1 / ?na + 1 / ?nb) < 0"
    by (simp add: not_less)
  have "0 \<le> ?xa / ?na * (1 - ?xa / ?na) / ?na + ?xb / ?nb * (1 - ?xb / ?nb) / ?nb"
  proof -
    have a': "0 \<le> ?xa / ?na * (1 - ?xa / ?na) / ?na"
      using divide_nonneg_nonneg [OF mult_nonneg_nonneg [OF pa(1) pa(2)] less_imp_le [OF na]] .
    have b': "0 \<le> ?xb / ?nb * (1 - ?xb / ?nb) / ?nb"
      using divide_nonneg_nonneg [OF mult_nonneg_nonneg [OF pb(1) pb(2)] less_imp_le [OF nb]] .
    show ?thesis using a' b' by (rule add_nonneg_nonneg)
  qed
  then have r2: "\<not> ?xa / ?na * (1 - ?xa / ?na) / ?na + ?xb / ?nb * (1 - ?xb / ?nb) / ?nb < 0"
    by (simp add: not_less)
  show ?thesis
    unfolding z_test_value [OF assms(1,2)] Let_def
    using r1 r2 by (simp del: fdiv.simps)
qed

theorem z_test_formulas_witness:
  "[1, 1, 0 :: real] \<noteq> [] \<and> [1, 0, 0 :: real] \<noteq> []
   \<and> set [1, 1, 0 :: real] \<subseteq> {0, 1} \<and> set [1, 0, 0 :: real] \<subseteq> {0, 1}
   \<and> (\<exists>r. two_proportion_z_test (const_stats (Fin (1 / 2))) [1, 1, 0] [1, 0, 0]
            (1 / 20) (19 / 20) = Inr r
          \<and> test_statistic r = Fin ((1 / 3) / sqrt (1 / 6))
          \<and> effect_size r = Fin (1 / 3))"
proof -
  have a: "[1, 1, 0 :: real] \<noteq> []" and b: "[1, 0, 0 :: real] \<noteq> []" by simp_all
  have sa: "set [1, 1, 0 :: real] \<subseteq> {0, 1}" and sb: "set [1, 0, 0 :: real] \<subseteq> {0, 1}"
    by simp_all
  show ?thesis
    using z_test_formulas [OF a b sa sb, of "const_stats (Fin (1 / 2))" "1 / 20" "19 / 20"]
    by (auto simp: const_stats_def fsub_def)
qed


end
